theory Spec2Isabelle
  imports Main
begin

section \<open>Renderer registries (src/settings/RendererSettings.tsx)\<close>

subsection \<open>Data model\<close>

text \<open>
  A renderer is a React component: a JavaScript object with identity. The registries hold
  references to such objects, and resolution writes to the object the reference points to,
  so the objects live in an explicit store indexed by addresses. Of a component object the
  code reads \<^verbatim>\<open>name\<close> (the function name, undefined on an
  object that is not a function) and \<^verbatim>\<open>displayName\<close>
  (\<^verbatim>\<open>string | undefined\<close>); every other field is the extension part of the
  record.
\<close>

type_synonym addr = nat

record component =
  name :: "string option"
  displayName :: "string option"

type_synonym 'a store = "addr \<Rightarrow> 'a component_scheme"

text \<open>
  A registry is a JavaScript object read with \<^verbatim>\<open>renderers[name]\<close>: a map from
  property names to references, \<open>None\<close> for a slot that is undefined.
\<close>

type_synonym registry = "string \<rightharpoonup> addr"

record RendererSettings =
  imageRenderers :: registry
  textRenderers :: registry

text \<open>\<^verbatim>\<open>keyof TextRenderers\<close> and \<^verbatim>\<open>keyof ImageRenderers\<close>.\<close>

datatype TextRendererKey = Text_default | Text_html | Text_htmlPhrase | Text_userContent

datatype ImageRendererKey = Image_default | Image_standalone | Image_card | Image_buttonIcon

fun text_key :: "TextRendererKey \<Rightarrow> string" where
  "text_key Text_default = ''default''"
| "text_key Text_html = ''html''"
| "text_key Text_htmlPhrase = ''htmlPhrase''"
| "text_key Text_userContent = ''userContent''"

fun image_key :: "ImageRendererKey \<Rightarrow> string" where
  "image_key Image_default = ''default''"
| "image_key Image_standalone = ''standalone''"
| "image_key Image_card = ''card''"
| "image_key Image_buttonIcon = ''buttonIcon''"

subsection \<open>JavaScript truthiness of the values the code tests\<close>

text \<open>
  \<^verbatim>\<open>!renderer.displayName\<close> and \<^verbatim>\<open>roleDescription ? ... : ...\<close> test a
  \<^verbatim>\<open>string | undefined\<close>: undefined and the empty string are falsy.
\<close>

fun truthy_string :: "string option \<Rightarrow> bool" where
  "truthy_string None = False"
| "truthy_string (Some s) = (s \<noteq> [])"

text \<open>
  \<^verbatim>\<open>renderer.name?.length ? renderer.name : name\<close>: the component's own name when
  it is defined and its length is not zero, the slot name otherwise.
\<close>

fun name_or_slot :: "string option \<Rightarrow> string \<Rightarrow> string" where
  "name_or_slot None slot = slot"
| "name_or_slot (Some n) slot = (if length n \<noteq> 0 then n else slot)"

text \<open>The template literal \<^verbatim>\<open>`${type}(${...})`\<close>.\<close>

definition pretty_name :: "string \<Rightarrow> string \<Rightarrow> string" where
  "pretty_name type n = type @ ''('' @ n @ '')''"

subsection \<open>Resolution\<close>

text \<open>
  \<^verbatim>\<open>getRenderer(type, renderers, name)\<close> reads the slot; when the slot holds a
  component whose \<^verbatim>\<open>displayName\<close> is falsy it assigns the pretty name to that
  component; it returns what the slot holds. The result is the returned reference
  (\<open>None\<close> for undefined) and the store after the call. The assignment is taken to
  succeed here; \<open>getRenderer_strict\<close> below has its failure.
\<close>

definition getRenderer ::
  "string \<Rightarrow> registry \<Rightarrow> string \<Rightarrow> 'a store \<Rightarrow> addr option \<times> 'a store" where
  "getRenderer type renderers slot s =
     (case renderers slot of
        None \<Rightarrow> (None, s)
      | Some renderer \<Rightarrow>
          if \<not> truthy_string (displayName (s renderer))
          then (Some renderer,
                s(renderer := (s renderer)\<lparr>displayName :=
                     Some (pretty_name type (name_or_slot (name (s renderer)) slot))\<rparr>))
          else (Some renderer, s))"

text \<open>
  \<^verbatim>\<open>getRenderer(type, renderers, name) ?? getRenderer(type, renderers, 'default')\<close>:
  the second call happens only when the first returned undefined.
\<close>

definition getRendererOrDefault ::
  "string \<Rightarrow> registry \<Rightarrow> string \<Rightarrow> 'a store \<Rightarrow> addr option \<times> 'a store" where
  "getRendererOrDefault type renderers slot s =
     (case getRenderer type renderers slot s of
        (Some renderer, s') \<Rightarrow> (Some renderer, s')
      | (None, s') \<Rightarrow> getRenderer type renderers ''default'' s')"

text \<open>
  The hooks read the registry from the settings of the context (\<^verbatim>\<open>useTockSettings\<close>,
  not part of these sources), here the parameter \<open>settings\<close>.
\<close>

definition useTextRenderer ::
  "RendererSettings \<Rightarrow> TextRendererKey \<Rightarrow> 'a store \<Rightarrow> addr option \<times> 'a store" where
  "useTextRenderer settings k s =
     getRendererOrDefault ''TextRenderer'' (textRenderers settings) (text_key k) s"

definition useImageRenderer ::
  "RendererSettings \<Rightarrow> ImageRendererKey \<Rightarrow> 'a store \<Rightarrow> addr option \<times> 'a store" where
  "useImageRenderer settings k s =
     getRendererOrDefault ''ImageRenderer'' (imageRenderers settings) (image_key k) s"

section \<open>Styles and the theme\<close>

text \<open>
  Emotion's \<^verbatim>\<open>Interpolation\<close>: the falsy primitives, strings and numbers, a
  serialized style made by a \<^verbatim>\<open>css\<close> template (kept as the template's text), a
  function of the theme (kept as its name) and arrays of interpolations.
\<close>

datatype interpolation =
    I_undefined
  | I_null
  | I_boolean bool
  | I_number int
  | I_string string
  | I_css string
  | I_function string
  | I_array "interpolation list"

text \<open>JavaScript truthiness, as \<^verbatim>\<open>||\<close> tests it: an array is truthy even when empty.\<close>

fun truthy :: "interpolation \<Rightarrow> bool" where
  "truthy I_undefined = False"
| "truthy I_null = False"
| "truthy (I_boolean b) = b"
| "truthy (I_number n) = (n \<noteq> 0)"
| "truthy (I_string s) = (s \<noteq> [])"
| "truthy (I_css _) = True"
| "truthy (I_function _) = True"
| "truthy (I_array _) = True"

definition js_or :: "interpolation \<Rightarrow> interpolation \<Rightarrow> interpolation" where
  "js_or a b = (if truthy a then a else b)"

text \<open>
  The theme is declared in \<^verbatim>\<open>styles/theme\<close>, which is not part of these sources; the
  records hold the fields that the components read through optional chaining. The fields
  \<^verbatim>\<open>buttons\<close> and \<^verbatim>\<open>card\<close> of the overrides carry a suffix.
\<close>

record ButtonsOverrides =
  urlButton :: interpolation
  postbackButton :: interpolation

record CardOverrides =
  cardImage :: interpolation
  cardButton :: interpolation

record Overrides =
  buttons_overrides :: "ButtonsOverrides option"
  card_overrides :: "CardOverrides option"
  quickReply :: interpolation

record Theme =
  overrides :: "Overrides option"

text \<open>\<^verbatim>\<open>x?.f\<close>: undefined when \<open>x\<close> is undefined.\<close>

fun chain :: "'a option \<Rightarrow> ('a \<Rightarrow> interpolation) \<Rightarrow> interpolation" where
  "chain None f = I_undefined"
| "chain (Some x) f = f x"

definition buttons_of :: "Theme \<Rightarrow> ButtonsOverrides option" where
  "buttons_of theme = (case overrides theme of None \<Rightarrow> None | Some ov \<Rightarrow> buttons_overrides ov)"

definition card_of :: "Theme \<Rightarrow> CardOverrides option" where
  "card_of theme = (case overrides theme of None \<Rightarrow> None | Some ov \<Rightarrow> card_overrides ov)"

text \<open>
  \<^verbatim>\<open>baseButtonStyle\<close> and \<^verbatim>\<open>quickReplyStyle\<close> are defined in the QuickReply
  component, which is not part of these sources: they are parameters.
\<close>

record QuickReply =
  baseButtonStyle :: interpolation
  quickReplyStyle :: interpolation

definition defaultAnchorStyle :: interpolation where
  "defaultAnchorStyle = I_css ''text-align: center; text-decoration: none;''"

definition cardButtonBaseStyle :: interpolation where
  "cardButtonBaseStyle = I_function ''cardButtonBaseStyle''"

section \<open>Rendered output\<close>

text \<open>
  Modelled from the spec: the button model (\<^verbatim>\<open>model/buttons\<close>) is not part of
  these sources. The spec describes it as a tagged union of URL buttons and postback buttons,
  each with a label, an optional image and a type-specific payload (a URL, with the optional
  target that \<^verbatim>\<open>UrlButton\<close> accepts, or an action identifier). The card tells the
  two apart by \<^verbatim>\<open>'url' in button\<close>.
\<close>

datatype ButtonData =
    UrlButtonData string string "string option" "string option"
  | PostBackButtonData string "string option" string

datatype ForwardedRef = Ref_undefined | Ref_null | Ref_callback nat | Ref_object nat

text \<open>
  The value of a property of an element. \<open>P_bound f b\<close> is
  \<^verbatim>\<open>onAction.bind(null, button)\<close> for the handler \<open>f\<close>.
\<close>

datatype prop_value =
    P_undefined
  | P_string string
  | P_number int
  | P_boolean bool
  | P_css interpolation
  | P_ref ForwardedRef
  | P_bound nat ButtonData

text \<open>
  The properties of an element in the order the JSX writes them; a spread adds the
  properties of the object at its place, and a later property of the same name wins.
\<close>

type_synonym props = "(string \<times> prop_value) list"

definition get_prop :: "props \<Rightarrow> string \<Rightarrow> prop_value" where
  "get_prop ps k = (case map_of (rev ps) k of None \<Rightarrow> P_undefined | Some v \<Rightarrow> v)"

fun optional :: "string option \<Rightarrow> prop_value" where
  "optional None = P_undefined"
| "optional (Some s) = P_string s"

text \<open>\<^verbatim>\<open>{...button}\<close>: the properties of the button object.\<close>

fun button_props :: "ButtonData \<Rightarrow> props" where
  "button_props (UrlButtonData label url imageUrl target) =
     [(''label'', P_string label), (''url'', P_string url),
      (''imageUrl'', optional imageUrl), (''target'', optional target)]"
| "button_props (PostBackButtonData label imageUrl payload) =
     [(''label'', P_string label), (''imageUrl'', optional imageUrl),
      (''payload'', P_string payload)]"

text \<open>The argument of a call of a renderer: the card calls it on a string or on an object.\<close>

datatype call_arg = Arg_string string | Arg_props props

text \<open>
  What a component returns. An element is a host element, a styled element or a component
  whose source is elsewhere (\<^verbatim>\<open>PostBackButton\<close>, \<^verbatim>\<open>QuickReplyImage\<close>), with
  its name, properties and children. \<open>N_call a x\<close> is what the host's renderer at address
  \<open>a\<close> returns on \<open>x\<close>. The other nodes are the primitive children that JSX
  expressions such as \<^verbatim>\<open>a && b\<close> leave behind.
\<close>

datatype node =
    N_undefined
  | N_boolean bool
  | N_text string
  | N_call addr call_arg
  | N_element string props "node list"

datatype error = TypeError

text \<open>Calling what resolution returned: calling undefined throws.\<close>

fun call :: "addr option \<Rightarrow> call_arg \<Rightarrow> error + node" where
  "call None x = Inl TypeError"
| "call (Some a) x = Inr (N_call a x)"

section \<open>UrlButton (src/components/buttons/UrlButton/UrlButton.tsx)\<close>

text \<open>
  The array \<^verbatim>\<open>anchorStyle\<close>. An absent \<^verbatim>\<open>customStyle\<close> is
  \<open>I_undefined\<close>.
\<close>

definition anchorStyle :: "QuickReply \<Rightarrow> Theme \<Rightarrow> interpolation \<Rightarrow> interpolation list" where
  "anchorStyle qr theme customStyle =
     [baseButtonStyle qr,
      defaultAnchorStyle,
      js_or customStyle
        (I_array [quickReplyStyle qr,
                  js_or (chain (buttons_of theme) urlButton) (chain (overrides theme) quickReply)])]"

text \<open>
  The component, on its destructured properties in the order of the source;
  \<^verbatim>\<open>target\<close> defaults to \<^verbatim>\<open>'_blank'\<close> when undefined.
\<close>

definition UrlButton ::
  "QuickReply \<Rightarrow> Theme \<Rightarrow> string \<Rightarrow> string option \<Rightarrow> string \<Rightarrow> string option \<Rightarrow> interpolation \<Rightarrow> node" where
  "UrlButton qr theme url imageUrl label target customStyle =
     N_element ''a''
       [(''href'', P_string url),
        (''target'', P_string (case target of None \<Rightarrow> ''_blank'' | Some t \<Rightarrow> t)),
        (''css'', P_css (I_array (anchorStyle qr theme customStyle)))]
       [case imageUrl of
          None \<Rightarrow> N_undefined
        | Some u \<Rightarrow> if u \<noteq> [] then N_element ''QuickReplyImage'' [(''src'', P_string u)] []
                   else N_text u,
        N_text label]"

section \<open>Card\<close>

text \<open>
  \<^verbatim>\<open>buttons?: ButtonData[]\<close>, tested with \<^verbatim>\<open>Array.isArray\<close>: undefined,
  an array, or any other value.
\<close>

datatype ButtonsValue = Buttons_undefined | Buttons_not_array | Buttons_array "ButtonData list"

text \<open>\<^verbatim>\<open>onAction\<close> is a function of the host, kept as an identifier.\<close>

record CardProps =
  title :: string
  subTitle :: "string option"
  imageUrl :: "string option"
  imageAlternative :: "string option"
  buttons :: ButtonsValue
  roleDescription :: "string option"
  isHidden :: "bool option"
  onAction :: nat

text \<open>\<^verbatim>\<open>ref == undefined\<close>: loose equality, true of undefined and of null.\<close>

fun eq_undefined :: "ForwardedRef \<Rightarrow> bool" where
  "eq_undefined Ref_undefined = True"
| "eq_undefined Ref_null = True"
| "eq_undefined (Ref_callback _) = False"
| "eq_undefined (Ref_object _) = False"

text \<open>
  \<^verbatim>\<open>renderButton(button, index)\<close>, closed over the theme, \<^verbatim>\<open>isHidden\<close>
  and \<^verbatim>\<open>onAction\<close>. The URL button is rendered by \<open>UrlButton\<close>; the postback
  button is the element with the properties that the card gives it, in the order of the JSX.
\<close>

definition renderButton :: "QuickReply \<Rightarrow> Theme \<Rightarrow> bool \<Rightarrow> nat \<Rightarrow> ButtonData \<Rightarrow> nat \<Rightarrow> node" where
  "renderButton qr theme hidden handler button index =
     N_element ''li'' [(''key'', P_number (int index))]
       [case button of
          UrlButtonData label url img target \<Rightarrow>
            UrlButton qr theme url img label target
              (I_array [cardButtonBaseStyle,
                        chain (buttons_of theme) urlButton,
                        chain (card_of theme) cardButton])
        | PostBackButtonData label img payload \<Rightarrow>
            N_element ''PostBackButton''
              ([(''customStyle'', P_css (I_array [cardButtonBaseStyle,
                                                 chain (buttons_of theme) postbackButton,
                                                 chain (card_of theme) cardButton])),
                (''onClick'', P_bound handler button),
                (''onKeyPress'', P_bound handler button)]
               @ button_props button
               @ (if hidden then [(''tabIndex'', P_number (- 1))] else []))
              []]"

text \<open>
  \<^verbatim>\<open>Array.isArray(buttons) && buttons.length > 0 && <ButtonList role="group">...\<close>:
  the value \<^verbatim>\<open>false\<close> unless the buttons are an array that is not empty.
\<close>

fun buttonList :: "QuickReply \<Rightarrow> Theme \<Rightarrow> bool \<Rightarrow> nat \<Rightarrow> ButtonsValue \<Rightarrow> node" where
  "buttonList qr theme hidden handler (Buttons_array bs) =
     (if length bs > 0
      then N_element ''ButtonList'' [(''role'', P_string ''group'')]
             (map (\<lambda>(index, button). renderButton qr theme hidden handler button index)
                  (enumerate 0 bs))
      else N_boolean False)"
| "buttonList qr theme hidden handler _ = N_boolean False"

text \<open>\<^verbatim>\<open>imageUrl && renderImage({src, alt, css})\<close>\<close>

definition cardImage_node :: "Theme \<Rightarrow> addr option \<Rightarrow> CardProps \<Rightarrow> error + node" where
  "cardImage_node theme renderImage p =
     (case imageUrl p of
        None \<Rightarrow> Inr N_undefined
      | Some u \<Rightarrow>
          if u \<noteq> []
          then call renderImage
                 (Arg_props
                    [(''src'', P_string u),
                     (''alt'', optional (imageAlternative p)),
                     (''css'', P_css (I_array [I_css ''max-width: 100%; max-height: 100%;'',
                                              chain (card_of theme) cardImage]))])
          else Inr (N_text u))"

text \<open>\<^verbatim>\<open>subTitle && <CardSubTitle>{renderHtml(subTitle)}</CardSubTitle>\<close>\<close>

definition subTitle_node :: "addr option \<Rightarrow> CardProps \<Rightarrow> error + node" where
  "subTitle_node renderHtml p =
     (case subTitle p of
        None \<Rightarrow> Inr N_undefined
      | Some t \<Rightarrow>
          if t \<noteq> []
          then (case call renderHtml (Arg_string t) of
                  Inl e \<Rightarrow> Inl e
                | Inr r \<Rightarrow> Inr (N_element ''CardSubTitle'' [] [r]))
          else Inr (N_text t))"

text \<open>The properties of the outer wrapper.\<close>

definition outer_props :: "CardProps \<Rightarrow> ForwardedRef \<Rightarrow> props" where
  "outer_props p ref =
     [(''ref'', P_ref ref),
      (''role'', if eq_undefined ref then P_undefined else P_string ''group''),
      (''aria-roledescription'',
         if eq_undefined ref then P_undefined
         else if truthy_string (roleDescription p)
              then optional (roleDescription p)
              else P_string ''Slide'')]"

text \<open>
  The component \<^verbatim>\<open>cardRender(props, ref)\<close>. The two hooks run first and may label
  renderers; the children are then evaluated from left to right, and a call of an
  undefined renderer throws. The result is what the component returns, or the error, with
  the store after the hooks.
\<close>

definition Card ::
  "QuickReply \<Rightarrow> RendererSettings \<Rightarrow> Theme \<Rightarrow> CardProps \<Rightarrow> ForwardedRef \<Rightarrow> 'a store
     \<Rightarrow> (error + node) \<times> 'a store" where
  "Card qr settings theme p ref s =
     (let hidden = (case isHidden p of None \<Rightarrow> False | Some b \<Rightarrow> b);
          (renderImage, s1) = useImageRenderer settings Image_card s;
          (renderHtml, s2) = useTextRenderer settings Text_htmlPhrase s1
      in
       (case cardImage_node theme renderImage p of
          Inl e \<Rightarrow> Inl e
        | Inr img \<Rightarrow>
           (case call renderHtml (Arg_string (title p)) of
              Inl e \<Rightarrow> Inl e
            | Inr heading \<Rightarrow>
               (case subTitle_node renderHtml p of
                  Inl e \<Rightarrow> Inl e
                | Inr sub \<Rightarrow>
                   Inr (N_element ''CardOuter'' (outer_props p ref)
                         [N_element ''CardContainer'' [(''aria-hidden'', P_boolean hidden)]
                            [img,
                             N_element ''CardTitle'' [] [heading],
                             sub,
                             buttonList qr theme hidden (onAction p) (buttons p)]]))),
        s2))"

section \<open>Observing rendered output\<close>

text \<open>All the nodes of a tree, the root first.\<close>

fun nodes_of :: "node \<Rightarrow> node list" where
  "nodes_of (N_element n ps cs) = N_element n ps cs # concat (map nodes_of cs)"
| "nodes_of x = [x]"

text \<open>The properties of every element of a given name in a tree.\<close>

fun props_if :: "string \<Rightarrow> node \<Rightarrow> props list" where
  "props_if n (N_element m ps cs) = (if m = n then [ps] else [])"
| "props_if n _ = []"

definition elements :: "string \<Rightarrow> node \<Rightarrow> props list" where
  "elements n root = concat (map (props_if n) (nodes_of root))"

text \<open>The registries as their types demand them: the default slot is bound.\<close>

definition well_configured :: "RendererSettings \<Rightarrow> bool" where
  "well_configured settings \<longleftrightarrow>
     imageRenderers settings ''default'' \<noteq> None \<and> textRenderers settings ''default'' \<noteq> None"

text \<open>\<^verbatim>\<open>'url' in button\<close>\<close>

fun url_in :: "ButtonData \<Rightarrow> bool" where
  "url_in (UrlButtonData _ _ _ _) = True"
| "url_in (PostBackButtonData _ _ _) = False"

section \<open>Resolution and the strict mode write\<close>

text \<open>
  The sources are ES modules, hence strict mode code: the assignment
  \<^verbatim>\<open>renderer.displayName = ...\<close> throws a \<^verbatim>\<open>TypeError\<close> when the object
  does not accept it (a frozen or otherwise non-extensible object that lacks the property, a
  read-only property). Whether a component accepts the assignment is the field
  \<open>writable\<close>.
\<close>

record host_component = component +
  writable :: bool

text \<open>
  \<^verbatim>\<open>getRenderer\<close> with the outcome of the write: the guarded assignment is the only
  statement of the function that can throw, and it runs only when the slot holds a component
  whose \<^verbatim>\<open>displayName\<close> is falsy. On components that accept the write this is
  \<open>getRenderer\<close>.
\<close>

definition getRenderer_strict ::
  "string \<Rightarrow> registry \<Rightarrow> string \<Rightarrow> (addr \<Rightarrow> 'a host_component_scheme)
     \<Rightarrow> error + (addr option \<times> (addr \<Rightarrow> 'a host_component_scheme))" where
  "getRenderer_strict type renderers slot s =
     (case renderers slot of
        None \<Rightarrow> Inr (None, s)
      | Some renderer \<Rightarrow>
          if \<not> truthy_string (displayName (s renderer))
          then (if writable (s renderer)
                then Inr (Some renderer,
                          s(renderer := (s renderer)\<lparr>displayName :=
                               Some (pretty_name type (name_or_slot (name (s renderer)) slot))\<rparr>))
                else Inl TypeError)
          else Inr (Some renderer, s))"

text \<open>
  \<^verbatim>\<open>getRendererOrDefault\<close> likewise: an error of the first call propagates, and the
  second call happens only when the first returned undefined.
\<close>

definition getRendererOrDefault_strict ::
  "string \<Rightarrow> registry \<Rightarrow> string \<Rightarrow> (addr \<Rightarrow> 'a host_component_scheme)
     \<Rightarrow> error + (addr option \<times> (addr \<Rightarrow> 'a host_component_scheme))" where
  "getRendererOrDefault_strict type renderers slot s =
     (case getRenderer_strict type renderers slot s of
        Inl e \<Rightarrow> Inl e
      | Inr (Some renderer, s') \<Rightarrow> Inr (Some renderer, s')
      | Inr (None, s') \<Rightarrow> getRenderer_strict type renderers ''default'' s')"

section \<open>A concrete configuration\<close>

text \<open>
  A host configuration on which the theorems below are instantiated: five renderers at the
  addresses 0 to 4, none of them labelled, the image renderers
  \<^verbatim>\<open>{default: 0, card: 1}\<close> and the text renderers
  \<^verbatim>\<open>{default: 2, html: 3, htmlPhrase: 4}\<close>.
\<close>

definition unlabelled :: "unit store" where
  "unlabelled = (\<lambda>a. \<lparr>name = Some ''Renderer'', displayName = None\<rparr>)"

text \<open>The same renderers, anonymous and with the empty string as their label.\<close>

definition empty_labelled :: "unit store" where
  "empty_labelled = (\<lambda>a. \<lparr>name = None, displayName = Some ''''\<rparr>)"

text \<open>Renderers that the host has frozen, and renderers that accept the write.\<close>

definition frozen :: "addr \<Rightarrow> host_component" where
  "frozen = (\<lambda>a. \<lparr>name = Some ''Renderer'', displayName = None, writable = False\<rparr>)"

definition thawed :: "addr \<Rightarrow> host_component" where
  "thawed = (\<lambda>a. \<lparr>name = Some ''Renderer'', displayName = None, writable = True\<rparr>)"

definition host_settings :: RendererSettings where
  "host_settings =
     \<lparr>imageRenderers = [''default'' \<mapsto> 0, ''card'' \<mapsto> 1],
      textRenderers = [''default'' \<mapsto> 2, ''html'' \<mapsto> 3, ''htmlPhrase'' \<mapsto> 4]\<rparr>"

definition host_quickReply :: QuickReply where
  "host_quickReply =
     \<lparr>baseButtonStyle = I_css ''cursor: pointer;'',
      quickReplyStyle = I_function ''quickReplyStyle''\<rparr>"

definition plain_theme :: Theme where
  "plain_theme = \<lparr>overrides = None\<rparr>"

text \<open>A card with a title only, and one with a postback button and a URL button.\<close>

definition bare_card :: CardProps where
  "bare_card =
     \<lparr>title = ''Hello'', subTitle = None, imageUrl = None, imageAlternative = None,
      buttons = Buttons_undefined, roleDescription = None, isHidden = None, onAction = 0\<rparr>"

definition two_buttons :: "ButtonData list" where
  "two_buttons =
     [PostBackButtonData ''Yes'' None ''answer_yes'',
      UrlButtonData ''Site'' ''https://example.org'' None None]"

section \<open>Properties of the rendered tree\<close>

lemma elements_element:
  "elements n (N_element m ps cs) = (if m = n then [ps] else []) @ concat (map (elements n) cs)"
  by (induction cs) (auto simp: elements_def)

lemma elements_leaf [simp]:
  "elements n N_undefined = []" "elements n (N_boolean b) = []"
  "elements n (N_text t) = []" "elements n (N_call a x) = []"
  by (simp_all add: elements_def)

lemma cardImage_node_Some:
  "\<exists>img. cardImage_node theme (Some a) p = Inr img \<and> (\<forall>n. elements n img = [])"
  by (simp add: cardImage_node_def split: option.split)

lemma subTitle_node_Some:
  "\<exists>sub. subTitle_node (Some a) p = Inr sub \<and>
         (\<forall>n. n \<noteq> ''CardSubTitle'' \<longrightarrow> elements n sub = [])"
  by (simp add: subTitle_node_def elements_element split: option.split)

lemma getRendererOrDefault_eq:
  "getRendererOrDefault type renderers slot s =
     (case renderers slot of
        Some r \<Rightarrow> getRenderer type renderers slot s
      | None \<Rightarrow> getRenderer type renderers ''default'' s)"
  by (simp add: getRendererOrDefault_def getRenderer_def split: option.split)

lemma getRenderer_fst: "fst (getRenderer type renderers slot s) = renderers slot"
  by (simp add: getRenderer_def split: option.split)

lemma getRendererOrDefault_fst:
  "fst (getRendererOrDefault type renderers slot s) =
     (case renderers slot of Some r \<Rightarrow> Some r | None \<Rightarrow> renderers ''default'')"
  by (simp add: getRendererOrDefault_eq getRenderer_fst split: option.split)

lemma resolved_when_default:
  "renderers ''default'' \<noteq> None \<Longrightarrow>
   \<exists>a s'. getRendererOrDefault type renderers slot s = (Some a, s')"
  using getRendererOrDefault_fst[of type renderers slot s]
  by (cases "getRendererOrDefault type renderers slot s") (auto split: option.splits)

text \<open>With the default slots bound the card returns, and its tree has this shape.\<close>

lemma Card_renders:
  assumes "well_configured settings"
  shows "\<exists>img heading sub.
     fst (Card qr settings theme p ref s) =
       Inr (N_element ''CardOuter'' (outer_props p ref)
             [N_element ''CardContainer''
                [(''aria-hidden'', P_boolean (case isHidden p of None \<Rightarrow> False | Some b \<Rightarrow> b))]
                [img, N_element ''CardTitle'' [] [heading], sub,
                 buttonList qr theme (case isHidden p of None \<Rightarrow> False | Some b \<Rightarrow> b)
                   (onAction p) (buttons p)]])
     \<and> (\<forall>n. elements n img = []) \<and> (\<forall>n. elements n heading = [])
     \<and> (\<forall>n. n \<noteq> ''CardSubTitle'' \<longrightarrow> elements n sub = [])"
proof -
  obtain a s1 where 1: "useImageRenderer settings Image_card s = (Some a, s1)"
    using assms resolved_when_default unfolding well_configured_def useImageRenderer_def by blast
  obtain b s2 where 2: "useTextRenderer settings Text_htmlPhrase s1 = (Some b, s2)"
    using assms resolved_when_default unfolding well_configured_def useTextRenderer_def by blast
  obtain img where 3: "cardImage_node theme (Some a) p = Inr img" "\<forall>n. elements n img = []"
    using cardImage_node_Some by blast
  obtain sub where 4: "subTitle_node (Some b) p = Inr sub"
      "\<forall>n. n \<noteq> ''CardSubTitle'' \<longrightarrow> elements n sub = []"
    using subTitle_node_Some by blast
  have "fst (Card qr settings theme p ref s) =
       Inr (N_element ''CardOuter'' (outer_props p ref)
             [N_element ''CardContainer''
                [(''aria-hidden'', P_boolean (case isHidden p of None \<Rightarrow> False | Some b \<Rightarrow> b))]
                [img, N_element ''CardTitle'' [] [N_call b (Arg_string (title p))], sub,
                 buttonList qr theme (case isHidden p of None \<Rightarrow> False | Some b \<Rightarrow> b)
                   (onAction p) (buttons p)]])"
    by (simp add: Card_def Let_def 1 2 3 4)
  with 3 4 show ?thesis
    by (intro exI[of _ img] exI[of _ "N_call b (Arg_string (title p))"] exI[of _ sub]) simp
qed

lemma elements_Card_root:
  assumes "\<forall>n. elements n img = []" "\<forall>n. elements n heading = []"
      "\<forall>n. n \<noteq> ''CardSubTitle'' \<longrightarrow> elements n sub = []" "n \<noteq> ''CardSubTitle''"
  shows "elements n (N_element ''CardOuter'' ops
             [N_element ''CardContainer'' cps
                [img, N_element ''CardTitle'' [] [heading], sub, bl]]) =
         (if n = ''CardOuter'' then [ops] else []) @
         (if n = ''CardContainer'' then [cps] else []) @
         (if n = ''CardTitle'' then [[]] else []) @ elements n bl"
  using assms by (simp add: elements_element)

lemma elements_UrlButton:
  "elements n (UrlButton qr theme url img label target cs) =
     (if n = ''a''
      then [[(''href'', P_string url),
             (''target'', P_string (case target of None \<Rightarrow> ''_blank'' | Some t \<Rightarrow> t)),
             (''css'', P_css (I_array (anchorStyle qr theme cs)))]]
      else []) @
     (case img of
        None \<Rightarrow> []
      | Some u \<Rightarrow> if u \<noteq> [] \<and> n = ''QuickReplyImage'' then [[(''src'', P_string u)]] else [])"
  by (simp add: UrlButton_def elements_element split: option.split)

lemma elements_renderButton_other:
  "n \<notin> {''li'', ''a'', ''QuickReplyImage'', ''PostBackButton''} \<Longrightarrow>
   elements n (renderButton qr theme h f b i) = []"
  by (cases b)
     (auto simp: renderButton_def elements_element elements_UrlButton split: option.split)

lemma elements_renderButton_PostBackButton:
  "elements ''PostBackButton'' (renderButton qr theme h f b i) =
     (if url_in b then []
      else [[(''customStyle'', P_css (I_array [cardButtonBaseStyle,
                                                 chain (buttons_of theme) postbackButton,
                                                 chain (card_of theme) cardButton])),
             (''onClick'', P_bound f b), (''onKeyPress'', P_bound f b)]
            @ button_props b @ (if h then [(''tabIndex'', P_number (- 1))] else [])])"
  by (cases b)
     (simp_all add: renderButton_def elements_element elements_UrlButton split: option.split)

lemma elements_renderButton_a:
  "elements ''a'' (renderButton qr theme h f b i) =
     (case b of
        UrlButtonData label url img target \<Rightarrow>
          [[(''href'', P_string url),
            (''target'', P_string (case target of None \<Rightarrow> ''_blank'' | Some t \<Rightarrow> t)),
            (''css'', P_css (I_array (anchorStyle qr theme
               (I_array [cardButtonBaseStyle, chain (buttons_of theme) urlButton,
                         chain (card_of theme) cardButton]))))]]
      | PostBackButtonData _ _ _ \<Rightarrow> [])"
  by (cases b)
     (simp_all add: renderButton_def elements_element elements_UrlButton split: option.split)

lemma elements_buttonList:
  "elements n (buttonList qr theme h f bv) =
     (case bv of
        Buttons_array bs \<Rightarrow>
          if bs \<noteq> []
          then (if n = ''ButtonList'' then [[(''role'', P_string ''group'')]] else []) @
               concat (map (\<lambda>(i, b). elements n (renderButton qr theme h f b i))
                         (enumerate 0 bs))
          else []
      | _ \<Rightarrow> [])"
  by (cases bv) (simp_all add: elements_element comp_def split_def)

lemma concat_enumerate_Nil:
  "(\<And>i b. g i b = []) \<Longrightarrow> concat (map (\<lambda>(i, b). g i b) (enumerate k bs)) = []"
  by (induction bs arbitrary: k) simp_all

lemma set_concat_enumerate:
  "x \<in> set (concat (map (\<lambda>(i, b). g i b) (enumerate k bs))) \<Longrightarrow>
   \<exists>i b. b \<in> set bs \<and> x \<in> set (g i b)"
proof (induction bs arbitrary: k)
  case Nil
  then show ?case by simp
next
  case (Cons a bs)
  from Cons.prems
  have "x \<in> set (g k a) \<or>
        x \<in> set (concat (map (\<lambda>(i, b). g i b) (enumerate (Suc k) bs)))"
    by simp
  then show ?case
  proof
    assume "x \<in> set (g k a)"
    then show ?thesis by (intro exI[of _ k] exI[of _ a]) simp
  next
    assume "x \<in> set (concat (map (\<lambda>(i, b). g i b) (enumerate (Suc k) bs)))"
    from Cons.IH[OF this] obtain i b where "b \<in> set bs" "x \<in> set (g i b)" by blast
    then show ?thesis by (intro exI[of _ i] exI[of _ b]) simp
  qed
qed

lemma length_concat_enumerate:
  "(\<And>i b. length (g i b) = (if P b then 1 else 0)) \<Longrightarrow>
   length (concat (map (\<lambda>(i, b). g i b) (enumerate k bs))) = length (filter P bs)"
  by (induction bs arbitrary: k) simp_all

section \<open>Properties of resolution\<close>

lemma falsy_string: "\<not> truthy_string x \<longleftrightarrow> x = None \<or> x = Some []"
  by (cases x) simp_all

lemma getRenderer_idem:
  "getRenderer type renderers slot (snd (getRenderer type renderers slot s)) =
   getRenderer type renderers slot s"
  by (simp add: getRenderer_def pretty_name_def split: option.split)

text \<open>
  Claim C1. Resolution returns the renderer bound to the requested slot when the slot is
  bound, and the renderer bound to the slot \<^verbatim>\<open>default\<close> otherwise. This holds of
  \<open>getRendererOrDefault\<close> on any registry and slot name, hence of both hooks on every
  key of their registry. On the registry \<^verbatim>\<open>{default: D, card: C}\<close>, resolving
  \<^verbatim>\<open>card\<close> yields \<open>C\<close> and resolving \<^verbatim>\<open>standalone\<close> yields
  \<open>D\<close>.
\<close>

theorem resolution_slot_or_default:
  "(renderers slot = Some r \<longrightarrow> fst (getRendererOrDefault type renderers slot s) = Some r) \<and>
   (renderers slot = None \<longrightarrow>
      fst (getRendererOrDefault type renderers slot s) = renderers ''default'') \<and>
   fst (useTextRenderer settings tk s) =
     (case textRenderers settings (text_key tk) of
        Some r \<Rightarrow> Some r | None \<Rightarrow> textRenderers settings ''default'') \<and>
   fst (useImageRenderer settings ik s) =
     (case imageRenderers settings (image_key ik) of
        Some r \<Rightarrow> Some r | None \<Rightarrow> imageRenderers settings ''default'') \<and>
   fst (getRendererOrDefault type [''default'' \<mapsto> D, ''card'' \<mapsto> C] ''card'' s) = Some C \<and>
   fst (getRendererOrDefault type [''default'' \<mapsto> D, ''card'' \<mapsto> C] ''standalone'' s) = Some D"
  by (simp add: useTextRenderer_def useImageRenderer_def getRendererOrDefault_fst
        split: option.split)

theorem resolution_slot_or_default_witness:
  "fst (useImageRenderer host_settings Image_card unlabelled) = Some 1 \<and>
   fst (useImageRenderer host_settings Image_standalone unlabelled) = Some 0 \<and>
   fst (useTextRenderer host_settings Text_userContent unlabelled) = Some 2"
  using resolution_slot_or_default
          [of "imageRenderers host_settings" "''card''" 1 "''ImageRenderer''" unlabelled
              host_settings Text_userContent Image_card 0 1]
        resolution_slot_or_default
          [of "imageRenderers host_settings" "''standalone''" 1 "''ImageRenderer''" unlabelled
              host_settings Text_userContent Image_standalone 0 1]
  by (simp add: host_settings_def)

text \<open>
  Claim C2, as stated: a renderer that has no \<^verbatim>\<open>displayName\<close> is given the label,
  and a renderer that already has one is left unchanged. The second half fails on a renderer
  whose \<^verbatim>\<open>displayName\<close> is the empty string: the test
  \<^verbatim>\<open>!renderer.displayName\<close> is a test of truthiness, and the renderer is labelled
  again.
\<close>

theorem empty_displayName_is_replaced:
  "imageRenderers host_settings ''card'' = Some 1 \<and>
   displayName (empty_labelled 1) = Some '''' \<and>
   displayName (snd (getRenderer ''ImageRenderer'' (imageRenderers host_settings) ''card''
                       empty_labelled) 1) = Some ''ImageRenderer(card)''"
  by (simp add: host_settings_def empty_labelled_def getRenderer_def pretty_name_def)

text \<open>
  Claim C2, amended. When \<open>getRenderer\<close> reads a slot bound to a renderer whose
  \<^verbatim>\<open>displayName\<close> is undefined or the empty string, it sets that field to the type
  string followed, in parentheses, by the renderer's own name when that name is defined and
  not empty, and by the slot name read otherwise; nothing else in the store changes. A
  renderer whose \<^verbatim>\<open>displayName\<close> is a string that is not empty is left unchanged.
\<close>

theorem getRenderer_labels:
  assumes "renderers slot = Some a"
  shows "(displayName (s a) = None \<or> displayName (s a) = Some [] \<longrightarrow>
           snd (getRenderer type renderers slot s) =
             s(a := (s a)\<lparr>displayName :=
                  Some (type @ ''('' @
                        (case name (s a) of None \<Rightarrow> slot
                         | Some n \<Rightarrow> if n = [] then slot else n) @ '')'')\<rparr>)) \<and>
         ((\<exists>d. displayName (s a) = Some d \<and> d \<noteq> []) \<longrightarrow>
           snd (getRenderer type renderers slot s) = s) \<and>
         fst (getRenderer type renderers slot s) = Some a"
  using assms
  by (cases "name (s a)") (auto simp: getRenderer_def pretty_name_def)

theorem getRenderer_labels_witness:
  "imageRenderers host_settings ''card'' = Some 1 \<and>
   snd (getRenderer ''ImageRenderer'' (imageRenderers host_settings) ''card'' unlabelled) =
     unlabelled(1 := \<lparr>name = Some ''Renderer'',
                      displayName = Some ''ImageRenderer(Renderer)''\<rparr>) \<and>
   snd (getRenderer ''ImageRenderer'' (imageRenderers host_settings) ''card''
          (unlabelled(1 := \<lparr>name = Some ''Renderer'', displayName = Some ''Mine''\<rparr>))) =
     unlabelled(1 := \<lparr>name = Some ''Renderer'', displayName = Some ''Mine''\<rparr>)"
  using getRenderer_labels
          [of "imageRenderers host_settings" "''card''" 1 unlabelled "''ImageRenderer''"]
        getRenderer_labels
          [of "imageRenderers host_settings" "''card''" 1
              "unlabelled(1 := \<lparr>name = Some ''Renderer'', displayName = Some ''Mine''\<rparr>)"
              "''ImageRenderer''"]
  by (simp add: host_settings_def unlabelled_def)

text \<open>
  Claim C3. Resolving a slot a second time, in the store that the first resolution left,
  returns the same renderer and leaves the store, hence every label, as the first
  resolution left it.
\<close>

theorem resolution_idempotent:
  "fst (getRendererOrDefault type renderers slot
          (snd (getRendererOrDefault type renderers slot s))) =
     fst (getRendererOrDefault type renderers slot s) \<and>
   snd (getRendererOrDefault type renderers slot
          (snd (getRendererOrDefault type renderers slot s))) =
     snd (getRendererOrDefault type renderers slot s) \<and>
   useTextRenderer settings tk (snd (useTextRenderer settings tk s)) =
     useTextRenderer settings tk s \<and>
   useImageRenderer settings ik (snd (useImageRenderer settings ik s)) =
     useImageRenderer settings ik s"
  by (simp add: useTextRenderer_def useImageRenderer_def getRendererOrDefault_eq
        getRenderer_idem split: option.split)

lemma getRenderer_strict_cases:
  "getRenderer_strict type renderers slot s =
     (if \<exists>a. renderers slot = Some a \<and> \<not> truthy_string (displayName (s a)) \<and> \<not> writable (s a)
      then Inl TypeError else Inr (getRenderer type renderers slot s))"
  by (auto simp: getRenderer_strict_def getRenderer_def split: option.split)

lemma getRendererOrDefault_strict_eq:
  "getRendererOrDefault_strict type renderers slot s =
     (case renderers slot of
        Some r \<Rightarrow> getRenderer_strict type renderers slot s
      | None \<Rightarrow> getRenderer_strict type renderers ''default'' s)"
  by (simp add: getRendererOrDefault_strict_def getRenderer_strict_def split: option.split)

text \<open>
  Claim C4, as stated: resolution never signals an error, on any input. It fails on a
  renderer that is not labelled yet and that the host has frozen: the assignment of the label
  throws.
\<close>

theorem frozen_renderer_throws:
  "imageRenderers host_settings ''card'' = Some 1 \<and>
   displayName (frozen 1) = None \<and> \<not> writable (frozen 1) \<and>
   getRendererOrDefault_strict ''ImageRenderer'' (imageRenderers host_settings) ''card'' frozen =
     Inl TypeError"
  by (simp add: host_settings_def frozen_def getRendererOrDefault_strict_eq getRenderer_strict_def)

lemma getRendererOrDefault_strict_cases:
  "getRendererOrDefault_strict type renderers slot s =
     (if \<exists>a. (case renderers slot of Some r \<Rightarrow> Some r | None \<Rightarrow> renderers ''default'') = Some a \<and>
             \<not> truthy_string (displayName (s a)) \<and> \<not> writable (s a)
      then Inl TypeError else Inr (getRendererOrDefault type renderers slot s))"
proof (cases "renderers slot")
  case None
  then show ?thesis
    by (simp add: getRendererOrDefault_strict_eq getRendererOrDefault_eq
          getRenderer_strict_cases)
next
  case (Some r)
  then show ?thesis
    by (simp add: getRendererOrDefault_strict_eq getRendererOrDefault_eq
          getRenderer_strict_cases)
qed

text \<open>
  Claim C4, amended. A missing slot is never an error: when neither the requested slot nor
  the slot \<^verbatim>\<open>default\<close> is bound, resolution returns undefined and leaves the store
  as it was. The only error of resolution is the \<^verbatim>\<open>TypeError\<close> of the assignment
  of the label, thrown exactly when the renderer that resolution finds (the one of the slot,
  or else the one of \<^verbatim>\<open>default\<close>) has an undefined or empty
  \<^verbatim>\<open>displayName\<close> and does not accept the write. In every other case resolution
  returns what \<open>getRendererOrDefault\<close> returns.
\<close>

theorem resolution_errors:
  "(renderers slot = None \<and> renderers ''default'' = None \<longrightarrow>
      getRendererOrDefault_strict type renderers slot s = Inr (None, s)) \<and>
   (getRendererOrDefault_strict type renderers slot s = Inl TypeError \<longleftrightarrow>
      (\<exists>a. (case renderers slot of Some r \<Rightarrow> Some r | None \<Rightarrow> renderers ''default'') = Some a \<and>
           (displayName (s a) = None \<or> displayName (s a) = Some []) \<and> \<not> writable (s a))) \<and>
   (getRendererOrDefault_strict type renderers slot s \<noteq> Inl TypeError \<longrightarrow>
      getRendererOrDefault_strict type renderers slot s =
        Inr (getRendererOrDefault type renderers slot s))"
proof (intro conjI impI)
  assume "renderers slot = None \<and> renderers ''default'' = None"
  then show "getRendererOrDefault_strict type renderers slot s = Inr (None, s)"
    by (simp add: getRendererOrDefault_strict_eq getRenderer_strict_def)
next
  show "getRendererOrDefault_strict type renderers slot s = Inl TypeError \<longleftrightarrow>
      (\<exists>a. (case renderers slot of Some r \<Rightarrow> Some r | None \<Rightarrow> renderers ''default'') = Some a \<and>
           (displayName (s a) = None \<or> displayName (s a) = Some []) \<and> \<not> writable (s a))"
    unfolding getRendererOrDefault_strict_cases falsy_string[symmetric] by simp
next
  assume "getRendererOrDefault_strict type renderers slot s \<noteq> Inl TypeError"
  then show "getRendererOrDefault_strict type renderers slot s =
        Inr (getRendererOrDefault type renderers slot s)"
    unfolding getRendererOrDefault_strict_cases by (simp split: if_splits)
qed

theorem resolution_errors_witness:
  "getRendererOrDefault_strict ''ImageRenderer'' [''card'' \<mapsto> 1] ''standalone'' frozen =
     Inr (None, frozen) \<and>
   getRendererOrDefault_strict ''ImageRenderer'' (imageRenderers host_settings) ''standalone''
       thawed =
     Inr (getRendererOrDefault ''ImageRenderer'' (imageRenderers host_settings) ''standalone''
            thawed) \<and>
   fst (getRendererOrDefault ''ImageRenderer'' (imageRenderers host_settings) ''standalone''
          thawed) = Some 0"
proof (intro conjI)
  show "getRendererOrDefault_strict ''ImageRenderer'' [''card'' \<mapsto> 1] ''standalone'' frozen =
     Inr (None, frozen)"
    using resolution_errors[of "[''card'' \<mapsto> 1]" "''standalone''" "''ImageRenderer''" frozen,
             THEN conjunct1]
    by simp
  have "getRendererOrDefault_strict ''ImageRenderer'' (imageRenderers host_settings)
          ''standalone'' thawed \<noteq> Inl TypeError"
    by (simp add: getRendererOrDefault_strict_eq getRenderer_strict_def host_settings_def
          thawed_def)
  then show "getRendererOrDefault_strict ''ImageRenderer'' (imageRenderers host_settings)
       ''standalone'' thawed =
     Inr (getRendererOrDefault ''ImageRenderer'' (imageRenderers host_settings) ''standalone''
            thawed)"
    using resolution_errors[of "imageRenderers host_settings" "''standalone''" "''ImageRenderer''" thawed,
             THEN conjunct2, THEN conjunct2]
    by blast
  show "fst (getRendererOrDefault ''ImageRenderer'' (imageRenderers host_settings) ''standalone''
          thawed) = Some 0"
    by (simp add: getRendererOrDefault_fst host_settings_def)
qed

text \<open>
  Claim C9, as stated: resolution writes \<^verbatim>\<open>displayName\<close> only when the field was
  absent. It fails on a renderer whose \<^verbatim>\<open>displayName\<close> is present and is the
  empty string: the field is overwritten.
\<close>

theorem present_displayName_is_written:
  "displayName (empty_labelled 1) = Some '''' \<and>
   displayName (snd (useImageRenderer host_settings Image_card empty_labelled) 1) =
     Some ''ImageRenderer(card)''"
  by (simp add: host_settings_def empty_labelled_def useImageRenderer_def
        getRendererOrDefault_eq getRenderer_def pretty_name_def)

text \<open>
  Claim C9, amended. Resolution takes the registry as a value that it only reads, and of
  the store it changes nothing but the \<^verbatim>\<open>displayName\<close> of the renderer it
  returns: the name and every other field of every renderer are as before, and a
  \<^verbatim>\<open>displayName\<close> differs from before only on the returned renderer and only when it
  was undefined or the empty string.
\<close>

theorem resolution_frame:
  "name (snd (getRendererOrDefault type renderers slot s) a) = name (s a) \<and>
   component.more (snd (getRendererOrDefault type renderers slot s) a) = component.more (s a) \<and>
   (displayName (snd (getRendererOrDefault type renderers slot s) a) \<noteq> displayName (s a) \<longrightarrow>
      (displayName (s a) = None \<or> displayName (s a) = Some []) \<and>
      fst (getRendererOrDefault type renderers slot s) = Some a)"
  by (auto simp: getRendererOrDefault_eq getRenderer_def falsy_string
        split: option.splits if_splits)

theorem resolution_frame_witness:
  "displayName (snd (getRendererOrDefault ''ImageRenderer'' (imageRenderers host_settings)
                       ''buttonIcon'' unlabelled) 0) \<noteq> displayName (unlabelled 0) \<and>
   displayName (unlabelled 0) = None \<and>
   fst (getRendererOrDefault ''ImageRenderer'' (imageRenderers host_settings)
          ''buttonIcon'' unlabelled) = Some 0"
  using resolution_frame
          [of "''ImageRenderer''" "imageRenderers host_settings" "''buttonIcon''" unlabelled 0]
  by (simp add: host_settings_def unlabelled_def getRendererOrDefault_eq getRenderer_def)

section \<open>Properties of the card and of the URL button\<close>

lemma host_well_configured: "well_configured host_settings"
  by (simp add: well_configured_def host_settings_def)

text \<open>
  Claim C5. A card whose buttons are undefined, not an array or an empty array renders no
  \<^verbatim>\<open>ButtonList\<close> element; a card whose buttons are an array that is not empty
  renders exactly one, with the role \<^verbatim>\<open>group\<close>. The registries are as their
  types demand (the default slots bound), so that the card returns.
\<close>

theorem card_button_list:
  assumes "well_configured settings"
  shows "\<exists>root. fst (Card qr settings theme p ref s) = Inr root \<and>
     elements ''ButtonList'' root =
       (case buttons p of
          Buttons_undefined \<Rightarrow> []
        | Buttons_not_array \<Rightarrow> []
        | Buttons_array bs \<Rightarrow> if length bs = 0 then [] else [[(''role'', P_string ''group'')]])"
proof -
  from Card_renders[OF assms, of qr theme p ref s]
  obtain img heading sub where
    r: "fst (Card qr settings theme p ref s) =
       Inr (N_element ''CardOuter'' (outer_props p ref)
             [N_element ''CardContainer''
                [(''aria-hidden'', P_boolean (case isHidden p of None \<Rightarrow> False | Some b \<Rightarrow> b))]
                [img, N_element ''CardTitle'' [] [heading], sub,
                 buttonList qr theme (case isHidden p of None \<Rightarrow> False | Some b \<Rightarrow> b)
                   (onAction p) (buttons p)]])"
    and l: "\<forall>n. elements n img = []" "\<forall>n. elements n heading = []"
     "\<forall>n. n \<noteq> ''CardSubTitle'' \<longrightarrow> elements n sub = []"
    by blast
  show ?thesis
    unfolding r
    by (simp add: elements_Card_root[OF l] elements_buttonList elements_renderButton_other
          concat_enumerate_Nil split: ButtonsValue.split)
qed

theorem card_button_list_witness:
  "well_configured host_settings \<and>
   (fst (Card host_quickReply host_settings plain_theme bare_card Ref_null unlabelled) =
      Inr (N_element ''CardOuter''
             [(''ref'', P_ref Ref_null), (''role'', P_undefined),
              (''aria-roledescription'', P_undefined)]
             [N_element ''CardContainer'' [(''aria-hidden'', P_boolean False)]
                [N_undefined,
                 N_element ''CardTitle'' [] [N_call 4 (Arg_string ''Hello'')],
                 N_undefined,
                 N_boolean False]]) \<and>
    (\<exists>root. fst (Card host_quickReply host_settings plain_theme
                  (bare_card\<lparr>buttons := Buttons_array []\<rparr>) Ref_null unlabelled) = Inr root \<and>
            elements ''ButtonList'' root = []) \<and>
    (\<exists>root. fst (Card host_quickReply host_settings plain_theme
                  (bare_card\<lparr>buttons := Buttons_array two_buttons\<rparr>) Ref_null unlabelled) = Inr root \<and>
            elements ''ButtonList'' root = [[(''role'', P_string ''group'')]]))"
  using host_well_configured
        card_button_list
          [OF host_well_configured, of host_quickReply plain_theme bare_card Ref_null unlabelled]
        card_button_list
          [OF host_well_configured, of host_quickReply plain_theme
              "bare_card\<lparr>buttons := Buttons_array []\<rparr>" Ref_null unlabelled]
        card_button_list
          [OF host_well_configured, of host_quickReply plain_theme
              "bare_card\<lparr>buttons := Buttons_array two_buttons\<rparr>" Ref_null unlabelled]
  by (simp add: bare_card_def two_buttons_def Card_def host_settings_def useImageRenderer_def
        useTextRenderer_def getRendererOrDefault_eq getRenderer_def unlabelled_def
        cardImage_node_def subTitle_node_def outer_props_def)

lemma tabIndex_postback:
  "\<not> url_in b \<Longrightarrow>
   get_prop ([(''customStyle'', c), (''onClick'', P_bound f b), (''onKeyPress'', P_bound f b)]
             @ button_props b @ (if h then [(''tabIndex'', P_number (- 1))] else []))
     ''tabIndex'' = (if h then P_number (- 1) else P_undefined)"
  by (cases b) (simp_all add: get_prop_def)

text \<open>
  Claim C6. Every postback button of a card rendered with \<^verbatim>\<open>isHidden = true\<close>
  has the property \<^verbatim>\<open>tabIndex\<close> equal to \<open>-1\<close>; on a card that is not hidden
  (\<^verbatim>\<open>isHidden\<close> false or left out) the property is undefined. The card renders one
  such element for each postback button of its array.
\<close>

theorem hidden_postback_tabIndex:
  assumes "well_configured settings"
  shows "\<exists>root. fst (Card qr settings theme p ref s) = Inr root \<and>
     (\<forall>ps \<in> set (elements ''PostBackButton'' root).
        get_prop ps ''tabIndex'' =
          (if isHidden p = Some True then P_number (- 1) else P_undefined)) \<and>
     length (elements ''PostBackButton'' root) =
       (case buttons p of
          Buttons_array bs \<Rightarrow> length (filter (\<lambda>b. \<not> url_in b) bs)
        | _ \<Rightarrow> 0)"
proof -
  define h where "h = (case isHidden p of None \<Rightarrow> False | Some b \<Rightarrow> b)"
  have h: "h \<longleftrightarrow> isHidden p = Some True"
    by (simp add: h_def split: option.split)
  from Card_renders[OF assms, of qr theme p ref s]
  obtain img heading sub where
    r: "fst (Card qr settings theme p ref s) =
       Inr (N_element ''CardOuter'' (outer_props p ref)
             [N_element ''CardContainer'' [(''aria-hidden'', P_boolean h)]
                [img, N_element ''CardTitle'' [] [heading], sub,
                 buttonList qr theme h (onAction p) (buttons p)]])"
    and l: "\<forall>n. elements n img = []" "\<forall>n. elements n heading = []"
     "\<forall>n. n \<noteq> ''CardSubTitle'' \<longrightarrow> elements n sub = []"
    unfolding h_def by blast
  let ?root = "N_element ''CardOuter'' (outer_props p ref)
             [N_element ''CardContainer'' [(''aria-hidden'', P_boolean h)]
                [img, N_element ''CardTitle'' [] [heading], sub,
                 buttonList qr theme h (onAction p) (buttons p)]]"
  have e: "elements ''PostBackButton'' ?root =
           elements ''PostBackButton'' (buttonList qr theme h (onAction p) (buttons p))"
    by (simp add: elements_Card_root[OF l])
  have tab: "get_prop ps ''tabIndex'' = (if h then P_number (- 1) else P_undefined)"
    if "ps \<in> set (elements ''PostBackButton'' (buttonList qr theme h (onAction p) (buttons p)))"
    for ps
  proof (cases "buttons p")
    case (Buttons_array bs)
    have "elements ''PostBackButton'' (buttonList qr theme h (onAction p) (buttons p)) =
          (if bs \<noteq> [] then concat (map (\<lambda>(i, b).
             elements ''PostBackButton'' (renderButton qr theme h (onAction p) b i))
               (enumerate 0 bs)) else [])"
      unfolding elements_buttonList Buttons_array by simp
    from that[unfolded this]
    have "ps \<in> set (concat (map (\<lambda>(i, b).
        elements ''PostBackButton'' (renderButton qr theme h (onAction p) b i)) (enumerate 0 bs)))"
      by (cases "bs = []") simp_all
    from set_concat_enumerate[OF this] obtain i b where
      "ps \<in> set (elements ''PostBackButton'' (renderButton qr theme h (onAction p) b i))"
      by blast
    then show ?thesis
      using tabIndex_postback[of b _ "onAction p" h]
      by (simp add: elements_renderButton_PostBackButton split: if_splits)
  qed (use that in \<open>simp_all add: elements_buttonList\<close>)
  have len: "length (elements ''PostBackButton'' (buttonList qr theme h (onAction p) (buttons p))) =
       (case buttons p of
          Buttons_array bs \<Rightarrow> length (filter (\<lambda>b. \<not> url_in b) bs)
        | _ \<Rightarrow> 0)"
    by (simp add: elements_buttonList elements_renderButton_PostBackButton
          length_concat_enumerate split: ButtonsValue.split)
  have "\<forall>ps \<in> set (elements ''PostBackButton'' ?root).
          get_prop ps ''tabIndex'' =
            (if isHidden p = Some True then P_number (- 1) else P_undefined)"
    unfolding e h[symmetric] using tab by blast
  moreover have "length (elements ''PostBackButton'' ?root) =
       (case buttons p of
          Buttons_array bs \<Rightarrow> length (filter (\<lambda>b. \<not> url_in b) bs)
        | _ \<Rightarrow> 0)"
    unfolding e by (rule len)
  ultimately show ?thesis using r by blast
qed
theorem hidden_postback_tabIndex_witness:
  "well_configured host_settings \<and>
   ((\<exists>root. fst (Card host_quickReply host_settings plain_theme
                  (bare_card\<lparr>buttons := Buttons_array two_buttons, isHidden := Some True\<rparr>)
                  Ref_null unlabelled) = Inr root \<and>
            map (\<lambda>ps. get_prop ps ''tabIndex'') (elements ''PostBackButton'' root) =
              [P_number (- 1)]) \<and>
    (\<exists>root. fst (Card host_quickReply host_settings plain_theme
                  (bare_card\<lparr>buttons := Buttons_array two_buttons, isHidden := Some False\<rparr>)
                  Ref_null unlabelled) = Inr root \<and>
            map (\<lambda>ps. get_prop ps ''tabIndex'') (elements ''PostBackButton'' root) =
              [P_undefined]))"
  using host_well_configured
        hidden_postback_tabIndex[OF host_well_configured, of host_quickReply plain_theme
           "bare_card\<lparr>buttons := Buttons_array two_buttons, isHidden := Some True\<rparr>"
           Ref_null unlabelled]
        hidden_postback_tabIndex[OF host_well_configured, of host_quickReply plain_theme
           "bare_card\<lparr>buttons := Buttons_array two_buttons, isHidden := Some False\<rparr>"
           Ref_null unlabelled]
  by (simp add: bare_card_def two_buttons_def Card_def host_settings_def useImageRenderer_def
        useTextRenderer_def getRendererOrDefault_eq getRenderer_def unlabelled_def
        cardImage_node_def subTitle_node_def elements_element renderButton_def UrlButton_def
        get_prop_def)

lemma no_tabIndex_anchor:
  "get_prop [(''href'', x), (''target'', y), (''css'', z)] ''tabIndex'' = P_undefined"
  by (simp add: get_prop_def)

text \<open>
  Claim C10. Whatever \<^verbatim>\<open>isHidden\<close> is, the anchor that the card renders for a
  URL button has the properties \<^verbatim>\<open>href\<close>, \<^verbatim>\<open>target\<close> and
  \<^verbatim>\<open>css\<close> only, so its \<^verbatim>\<open>tabIndex\<close> is undefined, also when the
  card is hidden and its container is marked \<^verbatim>\<open>aria-hidden\<close>. The card renders
  one anchor for each URL button of its array.
\<close>

theorem url_button_no_tabIndex:
  assumes "well_configured settings"
  shows "\<exists>root. fst (Card qr settings theme p ref s) = Inr root \<and>
     (\<forall>ps \<in> set (elements ''a'' root).
        get_prop ps ''tabIndex'' = P_undefined \<and> map fst ps = [''href'', ''target'', ''css'']) \<and>
     length (elements ''a'' root) =
       (case buttons p of Buttons_array bs \<Rightarrow> length (filter url_in bs) | _ \<Rightarrow> 0) \<and>
     elements ''CardContainer'' root = [[(''aria-hidden'', P_boolean (isHidden p = Some True))]]"
proof -
  define h where "h = (case isHidden p of None \<Rightarrow> False | Some b \<Rightarrow> b)"
  have h: "h \<longleftrightarrow> isHidden p = Some True"
    by (simp add: h_def split: option.split)
  from Card_renders[OF assms, of qr theme p ref s]
  obtain img heading sub where
    r: "fst (Card qr settings theme p ref s) =
       Inr (N_element ''CardOuter'' (outer_props p ref)
             [N_element ''CardContainer'' [(''aria-hidden'', P_boolean h)]
                [img, N_element ''CardTitle'' [] [heading], sub,
                 buttonList qr theme h (onAction p) (buttons p)]])"
    and l: "\<forall>n. elements n img = []" "\<forall>n. elements n heading = []"
     "\<forall>n. n \<noteq> ''CardSubTitle'' \<longrightarrow> elements n sub = []"
    unfolding h_def by blast
  let ?bl = "buttonList qr theme h (onAction p) (buttons p)"
  let ?root = "N_element ''CardOuter'' (outer_props p ref)
             [N_element ''CardContainer'' [(''aria-hidden'', P_boolean h)]
                [img, N_element ''CardTitle'' [] [heading], sub, ?bl]]"
  have e: "elements ''a'' ?root = elements ''a'' ?bl"
    by (simp add: elements_Card_root[OF l])
  have anchor: "get_prop ps ''tabIndex'' = P_undefined \<and> map fst ps = [''href'', ''target'', ''css'']"
    if "ps \<in> set (elements ''a'' ?bl)" for ps
  proof (cases "buttons p")
    case (Buttons_array bs)
    have "elements ''a'' ?bl =
          (if bs \<noteq> [] then concat (map (\<lambda>(i, b).
             elements ''a'' (renderButton qr theme h (onAction p) b i))
               (enumerate 0 bs)) else [])"
      unfolding elements_buttonList Buttons_array by simp
    from that[unfolded this]
    have "ps \<in> set (concat (map (\<lambda>(i, b).
        elements ''a'' (renderButton qr theme h (onAction p) b i)) (enumerate 0 bs)))"
      by (cases "bs = []") simp_all
    from set_concat_enumerate[OF this] obtain i b where
      "ps \<in> set (elements ''a'' (renderButton qr theme h (onAction p) b i))"
      by blast
    then show ?thesis
      by (cases b) (simp_all add: elements_renderButton_a no_tabIndex_anchor)
  qed (use that in \<open>simp_all add: elements_buttonList\<close>)
  have len: "length (elements ''a'' ?bl) =
       (case buttons p of Buttons_array bs \<Rightarrow> length (filter url_in bs) | _ \<Rightarrow> 0)"
    by (simp add: elements_buttonList elements_renderButton_a
          length_concat_enumerate[where P = url_in] split: ButtonsValue.split ButtonData.split)
  have "elements ''CardContainer'' ?bl = []"
    by (simp add: elements_buttonList elements_renderButton_other concat_enumerate_Nil
          split: ButtonsValue.split)
  then have c: "elements ''CardContainer'' ?root =
                [[(''aria-hidden'', P_boolean (isHidden p = Some True))]]"
    by (simp add: elements_Card_root[OF l] h)
  have "\<forall>ps \<in> set (elements ''a'' ?root).
          get_prop ps ''tabIndex'' = P_undefined \<and> map fst ps = [''href'', ''target'', ''css'']"
    unfolding e using anchor by blast
  moreover have "length (elements ''a'' ?root) =
       (case buttons p of Buttons_array bs \<Rightarrow> length (filter url_in bs) | _ \<Rightarrow> 0)"
    unfolding e by (rule len)
  ultimately show ?thesis using r c by blast
qed

theorem url_button_no_tabIndex_witness:
  "well_configured host_settings \<and>
   (\<exists>root. fst (Card host_quickReply host_settings plain_theme
                  (bare_card\<lparr>buttons := Buttons_array two_buttons, isHidden := Some True\<rparr>)
                  Ref_null unlabelled) = Inr root \<and>
           elements ''a'' root =
             [[(''href'', P_string ''https://example.org''),
               (''target'', P_string ''_blank''),
               (''css'', P_css (I_array
                  [I_css ''cursor: pointer;'',
                   I_css ''text-align: center; text-decoration: none;'',
                   I_array [I_function ''cardButtonBaseStyle'', I_undefined, I_undefined]]))]] \<and>
           elements ''CardContainer'' root = [[(''aria-hidden'', P_boolean True)]])"
  using host_well_configured
        url_button_no_tabIndex[OF host_well_configured, of host_quickReply plain_theme
           "bare_card\<lparr>buttons := Buttons_array two_buttons, isHidden := Some True\<rparr>"
           Ref_null unlabelled]
  by (simp add: bare_card_def two_buttons_def Card_def host_settings_def useImageRenderer_def
        useTextRenderer_def getRendererOrDefault_eq getRenderer_def unlabelled_def
        cardImage_node_def subTitle_node_def elements_element renderButton_def UrlButton_def
        anchorStyle_def host_quickReply_def plain_theme_def js_or_def buttons_of_def card_of_def
        defaultAnchorStyle_def cardButtonBaseStyle_def)

text \<open>
  Claim C8, as stated: with a forwarding reference, \<^verbatim>\<open>aria-roledescription\<close> is the
  supplied \<^verbatim>\<open>roleDescription\<close>, and \<^verbatim>\<open>Slide\<close> when none is supplied. It
  fails when the empty string is supplied: the source tests the truthiness of
  \<^verbatim>\<open>roleDescription\<close>, and the attribute is \<^verbatim>\<open>Slide\<close>.
\<close>

theorem empty_roleDescription_is_Slide:
  "roleDescription (bare_card\<lparr>roleDescription := Some ''''\<rparr>) = Some '''' \<and>
   fst (Card host_quickReply host_settings plain_theme
          (bare_card\<lparr>roleDescription := Some ''''\<rparr>) (Ref_object 0) unlabelled) =
     Inr (N_element ''CardOuter''
            [(''ref'', P_ref (Ref_object 0)), (''role'', P_string ''group''),
             (''aria-roledescription'', P_string ''Slide'')]
            [N_element ''CardContainer'' [(''aria-hidden'', P_boolean False)]
               [N_undefined,
                N_element ''CardTitle'' [] [N_call 4 (Arg_string ''Hello'')],
                N_undefined,
                N_boolean False]])"
  by (simp add: bare_card_def Card_def host_settings_def useImageRenderer_def
        useTextRenderer_def getRendererOrDefault_eq getRenderer_def unlabelled_def
        cardImage_node_def subTitle_node_def outer_props_def)

text \<open>
  Claim C8, amended. The outer wrapper of a card has the role \<^verbatim>\<open>group\<close> and an
  \<^verbatim>\<open>aria-roledescription\<close> exactly when the forwarding reference is neither
  undefined nor null; both are undefined otherwise. The description is the supplied
  \<^verbatim>\<open>roleDescription\<close> when that is a string that is not empty, and
  \<^verbatim>\<open>Slide\<close> when none is supplied or the empty string is.
\<close>

theorem outer_wrapper_attributes:
  assumes "well_configured settings"
  shows "\<exists>root outer. fst (Card qr settings theme p ref s) = Inr root \<and>
     elements ''CardOuter'' root = [outer] \<and>
     get_prop outer ''role'' =
       (if ref = Ref_undefined \<or> ref = Ref_null then P_undefined else P_string ''group'') \<and>
     get_prop outer ''aria-roledescription'' =
       (if ref = Ref_undefined \<or> ref = Ref_null then P_undefined
        else P_string (case roleDescription p of
                         None \<Rightarrow> ''Slide''
                       | Some d \<Rightarrow> if d = [] then ''Slide'' else d))"
proof -
  from Card_renders[OF assms, of qr theme p ref s]
  obtain img heading sub where
    r: "fst (Card qr settings theme p ref s) =
       Inr (N_element ''CardOuter'' (outer_props p ref)
             [N_element ''CardContainer''
                [(''aria-hidden'', P_boolean (case isHidden p of None \<Rightarrow> False | Some b \<Rightarrow> b))]
                [img, N_element ''CardTitle'' [] [heading], sub,
                 buttonList qr theme (case isHidden p of None \<Rightarrow> False | Some b \<Rightarrow> b)
                   (onAction p) (buttons p)]])"
    and l: "\<forall>n. elements n img = []" "\<forall>n. elements n heading = []"
     "\<forall>n. n \<noteq> ''CardSubTitle'' \<longrightarrow> elements n sub = []"
    by blast
  have bl: "elements ''CardOuter'' (buttonList qr theme h f bv) = []" for h f bv
    by (simp add: elements_buttonList elements_renderButton_other concat_enumerate_Nil
          split: ButtonsValue.split)
  have role: "get_prop (outer_props p ref) ''role'' =
       (if ref = Ref_undefined \<or> ref = Ref_null then P_undefined else P_string ''group'')"
    by (cases ref) (simp_all add: outer_props_def get_prop_def)
  have descr: "get_prop (outer_props p ref) ''aria-roledescription'' =
       (if ref = Ref_undefined \<or> ref = Ref_null then P_undefined
        else P_string (case roleDescription p of
                         None \<Rightarrow> ''Slide''
                       | Some d \<Rightarrow> if d = [] then ''Slide'' else d))"
    by (cases ref; cases "roleDescription p") (simp_all add: outer_props_def get_prop_def)
  have "elements ''CardOuter'' (N_element ''CardOuter'' (outer_props p ref)
             [N_element ''CardContainer''
                [(''aria-hidden'', P_boolean (case isHidden p of None \<Rightarrow> False | Some b \<Rightarrow> b))]
                [img, N_element ''CardTitle'' [] [heading], sub,
                 buttonList qr theme (case isHidden p of None \<Rightarrow> False | Some b \<Rightarrow> b)
                   (onAction p) (buttons p)]]) = [outer_props p ref]"
    by (simp add: elements_Card_root[OF l] bl)
  with r role descr show ?thesis by blast
qed

theorem outer_wrapper_attributes_witness:
  "well_configured host_settings \<and>
   (\<exists>root outer.
      fst (Card host_quickReply host_settings plain_theme
             (bare_card\<lparr>roleDescription := Some ''Offer''\<rparr>) (Ref_object 0) unlabelled) =
        Inr root \<and>
      elements ''CardOuter'' root = [outer] \<and>
      get_prop outer ''role'' = P_string ''group'' \<and>
      get_prop outer ''aria-roledescription'' = P_string ''Offer'')"
  using host_well_configured
        outer_wrapper_attributes[OF host_well_configured, of host_quickReply plain_theme
           "bare_card\<lparr>roleDescription := Some ''Offer''\<rparr>" "Ref_object 0" unlabelled]
  by simp

text \<open>
  Claim C7, as stated: the third entry of the style list is the custom style whenever the
  caller provides one. It fails on a custom style that is provided and falsy, such as the
  empty string: \<^verbatim>\<open>customStyle || [...]\<close> takes the fallback.
\<close>

theorem empty_customStyle_falls_back:
  "anchorStyle host_quickReply plain_theme (I_string '''') =
     [I_css ''cursor: pointer;'',
      I_css ''text-align: center; text-decoration: none;'',
      I_array [I_function ''quickReplyStyle'', I_undefined]]"
  by (simp add: anchorStyle_def host_quickReply_def plain_theme_def js_or_def buttons_of_def
        defaultAnchorStyle_def)

text \<open>
  Claim C7, amended. The style list of a URL button, which is the \<^verbatim>\<open>css\<close>
  property of its anchor, has three entries in this order: the base button style, the
  default anchor style, and then the custom style when it is truthy, in which case the custom
  style is the last entry. When the custom style is falsy (left out, null, false, zero or the
  empty string) the third entry is the list of the quick reply style and the theme's override
  for URL buttons or, when that one is falsy, the theme's override for quick replies.
\<close>

theorem anchorStyle_order:
  "(truthy customStyle \<longrightarrow>
      anchorStyle qr theme customStyle = [baseButtonStyle qr, defaultAnchorStyle, customStyle] \<and>
      last (anchorStyle qr theme customStyle) = customStyle) \<and>
   (\<not> truthy customStyle \<longrightarrow>
      anchorStyle qr theme customStyle =
        [baseButtonStyle qr, defaultAnchorStyle,
         I_array [quickReplyStyle qr,
                  if truthy (chain (buttons_of theme) urlButton)
                  then chain (buttons_of theme) urlButton
                  else chain (overrides theme) quickReply]]) \<and>
   (\<exists>ps. elements ''a'' (UrlButton qr theme url img label target customStyle) = [ps] \<and>
         get_prop ps ''css'' = P_css (I_array (anchorStyle qr theme customStyle)))"
  by (simp add: anchorStyle_def js_or_def elements_UrlButton get_prop_def split: option.split)

theorem anchorStyle_order_witness:
  "anchorStyle host_quickReply plain_theme (I_css ''color: red;'') =
     [I_css ''cursor: pointer;'',
      I_css ''text-align: center; text-decoration: none;'',
      I_css ''color: red;''] \<and>
   last (anchorStyle host_quickReply plain_theme (I_css ''color: red;'')) = I_css ''color: red;'' \<and>
   anchorStyle host_quickReply plain_theme I_undefined =
     [I_css ''cursor: pointer;'',
      I_css ''text-align: center; text-decoration: none;'',
      I_array [I_function ''quickReplyStyle'', I_undefined]]"
  using anchorStyle_order[of "I_css ''color: red;''" host_quickReply plain_theme]
        anchorStyle_order[of I_undefined host_quickReply plain_theme]
  by (simp add: host_quickReply_def plain_theme_def buttons_of_def defaultAnchorStyle_def)

end
